theory Spec2Isabelle
  imports Complex_Main "HOL-Library.Finite_Map" "HOL-Library.Multiset"
begin

section \<open>JavaScript numbers\<close>

text \<open>
  A JavaScript number is a double: a finite value, one of the two infinities, or NaN. A
  finite value is kept as the rational it stands for; the sign of zero is not modelled.
  The result of an arithmetic operation on finite values is the exact result rounded to a
  double, or an infinity on overflow. That rounding is done by the machine, not by this
  program: it is the field \<open>rnd\<close> of the parameter \<open>F\<close> of every function that computes.
  The power \<open>x ** 2\<close>, which the language does not require to be correctly rounded, is
  the field \<open>pow2\<close>. Literals that are integers or halves are doubles as they stand; the
  literal \<open>0.3\<close> is \<open>rnd F (3 / 10)\<close>. Division by zero, the infinities and NaN behave
  as in the language.
\<close>

datatype jsnum = Fin rat | PInf | NInf | NaN

record floats =
  rnd :: "rat \<Rightarrow> jsnum"
  pow2 :: "jsnum \<Rightarrow> jsnum"

fun js_neg :: "jsnum \<Rightarrow> jsnum" where
  "js_neg (Fin a) = Fin (- a)"
| "js_neg PInf = NInf"
| "js_neg NInf = PInf"
| "js_neg NaN = NaN"

fun js_add :: "floats \<Rightarrow> jsnum \<Rightarrow> jsnum \<Rightarrow> jsnum" where
  "js_add F NaN _ = NaN"
| "js_add F _ NaN = NaN"
| "js_add F (Fin a) (Fin b) = rnd F (a + b)"
| "js_add F PInf NInf = NaN"
| "js_add F NInf PInf = NaN"
| "js_add F PInf _ = PInf"
| "js_add F _ PInf = PInf"
| "js_add F NInf _ = NInf"
| "js_add F _ NInf = NInf"

definition js_sub :: "floats \<Rightarrow> jsnum \<Rightarrow> jsnum \<Rightarrow> jsnum" where
  "js_sub F a b = js_add F a (js_neg b)"

text \<open>The sign of a number: \<open>1\<close>, \<open>0\<close> or \<open>-1\<close>; NaN has none.\<close>

fun js_sign :: "jsnum \<Rightarrow> int option" where
  "js_sign (Fin a) = Some (if a = 0 then 0 else if 0 < a then 1 else - 1)"
| "js_sign PInf = Some 1"
| "js_sign NInf = Some (- 1)"
| "js_sign NaN = None"

fun js_mul :: "floats \<Rightarrow> jsnum \<Rightarrow> jsnum \<Rightarrow> jsnum" where
  "js_mul F (Fin a) (Fin b) = rnd F (a * b)"
| "js_mul F a b =
     (case (js_sign a, js_sign b) of
        (Some s, Some t) \<Rightarrow> (if s * t = 0 then NaN else if 0 < s * t then PInf else NInf)
      | _ \<Rightarrow> NaN)"

text \<open>
  Division: a finite non-zero value over zero is an infinity, zero over zero is NaN, a
  finite value over an infinity is zero. The divisor zero counts as positive zero.
\<close>

fun js_div :: "floats \<Rightarrow> jsnum \<Rightarrow> jsnum \<Rightarrow> jsnum" where
  "js_div F NaN _ = NaN"
| "js_div F _ NaN = NaN"
| "js_div F (Fin a) (Fin b) =
     (if b = 0 then (if a = 0 then NaN else if 0 < a then PInf else NInf) else rnd F (a / b))"
| "js_div F (Fin a) _ = Fin 0"
| "js_div F PInf (Fin b) = (if 0 \<le> b then PInf else NInf)"
| "js_div F NInf (Fin b) = (if 0 \<le> b then NInf else PInf)"
| "js_div F _ _ = NaN"

text \<open>
  Arithmetic without rounding: every result is kept exactly. It agrees with the doubles
  wherever the exact results are doubles.
\<close>

fun js_square :: "jsnum \<Rightarrow> jsnum" where
  "js_square (Fin a) = Fin (a * a)"
| "js_square PInf = PInf"
| "js_square NInf = PInf"
| "js_square NaN = NaN"

definition exact_arithmetic :: floats where
  "exact_arithmetic = \<lparr>rnd = Fin, pow2 = js_square\<rparr>"

fun js_lt :: "jsnum \<Rightarrow> jsnum \<Rightarrow> bool" where
  "js_lt NaN _ = False"
| "js_lt _ NaN = False"
| "js_lt (Fin a) (Fin b) = (a < b)"
| "js_lt PInf _ = False"
| "js_lt _ PInf = True"
| "js_lt _ NInf = False"
| "js_lt NInf _ = True"

definition js_gt :: "jsnum \<Rightarrow> jsnum \<Rightarrow> bool" where
  "js_gt a b = js_lt b a"

fun js_le :: "jsnum \<Rightarrow> jsnum \<Rightarrow> bool" where
  "js_le NaN _ = False"
| "js_le _ NaN = False"
| "js_le a b = (a = b \<or> js_lt a b)"

definition js_ge :: "jsnum \<Rightarrow> jsnum \<Rightarrow> bool" where
  "js_ge a b = js_le b a"

text \<open>\<open>Math.max(a, b)\<close>: NaN when either argument is NaN.\<close>

fun Math_max :: "jsnum \<Rightarrow> jsnum \<Rightarrow> jsnum" where
  "Math_max NaN _ = NaN"
| "Math_max _ NaN = NaN"
| "Math_max a b = (if js_lt a b then b else a)"

text \<open>
  \<open>Math.round(x)\<close>: the nearest integer, halves going up. The result is an integer the
  doubles have, so nothing is rounded again.
\<close>

fun Math_round :: "jsnum \<Rightarrow> jsnum" where
  "Math_round (Fin a) = Fin (of_int \<lfloor>a + 1 / 2\<rfloor>)"
| "Math_round x = x"

section \<open>JavaScript values\<close>

text \<open>
  The values that a JSON document, a snapshot of the live-data store or a response body
  holds. An object is a finite map from property names to values.
\<close>

datatype jsval =
    Undefined
  | Null
  | Bool bool
  | Num jsnum
  | Str string
  | Arr "jsval list"
  | Obj "(string, jsval) fmap"

text \<open>An object literal \<open>{k1: v1, ..., kn: vn}\<close>.\<close>

definition obj :: "(string \<times> jsval) list \<Rightarrow> jsval" where
  "obj kvs = Obj (fmap_of_list kvs)"

text \<open>A finite number literal.\<close>

abbreviation num :: "rat \<Rightarrow> jsval" where
  "num r \<equiv> Num (Fin r)"

text \<open>ToBoolean: what \<open>!x\<close>, \<open>x || y\<close>, \<open>x && y\<close>, \<open>x ? a : b\<close> and \<open>Boolean(x)\<close> test.\<close>

fun truthy :: "jsval \<Rightarrow> bool" where
  "truthy Undefined = False"
| "truthy Null = False"
| "truthy (Bool b) = b"
| "truthy (Num (Fin a)) = (a \<noteq> 0)"
| "truthy (Num NaN) = False"
| "truthy (Num _) = True"
| "truthy (Str s) = (s \<noteq> [])"
| "truthy (Arr _) = True"
| "truthy (Obj _) = True"

text \<open>\<open>a || b\<close> and \<open>a && b\<close> return one of their operands.\<close>

definition js_or :: "jsval \<Rightarrow> jsval \<Rightarrow> jsval" where
  "js_or a b = (if truthy a then a else b)"

definition js_and :: "jsval \<Rightarrow> jsval \<Rightarrow> jsval" where
  "js_and a b = (if truthy a then b else a)"

text \<open>
  ToNumber. On undefined, null, booleans and numbers it is fixed by the language. On
  strings, arrays and objects it parses the value's string form; that parser is not part
  of this program and is the parameter \<open>N\<close> of every function that compares or computes
  with a value read from a record.
\<close>

type_synonym coercion = "jsval \<Rightarrow> jsnum"

fun to_number :: "coercion \<Rightarrow> jsval \<Rightarrow> jsnum" where
  "to_number N Undefined = NaN"
| "to_number N Null = Fin 0"
| "to_number N (Bool b) = Fin (if b then 1 else 0)"
| "to_number N (Num n) = n"
| "to_number N v = N v"

text \<open>Decimal digits, and the decimal form of an array index.\<close>

definition digit_char :: "nat \<Rightarrow> char" where
  "digit_char d = ''0123456789'' ! (d mod 10)"

function show_nat :: "nat \<Rightarrow> string" where
  "show_nat n = (if n < 10 then [digit_char n] else show_nat (n div 10) @ [digit_char n])"
  by pat_completeness auto
termination
  by (relation "measure id") auto

text \<open>
  The own enumerable properties that an object spread \<open>{...v}\<close> copies: the properties
  of an object, the indexed elements of an array or a string, nothing otherwise.
\<close>

fun own_props :: "jsval \<Rightarrow> (string, jsval) fmap" where
  "own_props (Obj m) = m"
| "own_props (Arr xs) = fmap_of_list (zip (map show_nat [0..<length xs]) xs)"
| "own_props (Str s) = fmap_of_list (zip (map show_nat [0..<length s]) (map (\<lambda>c. Str [c]) s))"
| "own_props _ = fmempty"

text \<open>
  Property read \<open>v.k\<close> for the field names this program reads. A missing property is
  \<open>undefined\<close>; arrays and strings also have a \<open>length\<close>; numbers and booleans have
  none of these properties. Every read in this program is on a value already known not to
  be \<open>undefined\<close> or \<open>null\<close> (guarded by \<open>||\<close>, \<open>&&\<close>, \<open>?:\<close>, \<open>!data\<close> or an
  explicit test below), so the TypeError of such a read is never reached.
\<close>

definition js_prop :: "jsval \<Rightarrow> string \<Rightarrow> jsval" where
  "js_prop v k =
     (case fmlookup (own_props v) k of
        Some x \<Rightarrow> x
      | None \<Rightarrow>
          (case v of
             Arr xs \<Rightarrow> (if k = ''length'' then num (of_nat (length xs)) else Undefined)
           | Str s \<Rightarrow> (if k = ''length'' then num (of_nat (length s)) else Undefined)
           | _ \<Rightarrow> Undefined))"

text \<open>\<open>v.k1.k2...\<close> along a path of property names.\<close>

definition js_path :: "jsval \<Rightarrow> string list \<Rightarrow> jsval" where
  "js_path v ks = foldl js_prop v ks"

text \<open>A default parameter value \<open>f(x = d)\<close> applies when the argument is \<open>undefined\<close>.\<close>

definition dflt :: "jsval \<Rightarrow> jsval \<Rightarrow> jsval" where
  "dflt v d = (if v = Undefined then d else v)"

section \<open>Dates\<close>

text \<open>
  A \<open>Date\<close> is a time value: milliseconds since the epoch, UTC. \<open>civil_from_days\<close>
  turns a day count since 1970-01-01 into year, month and day of the proleptic Gregorian
  calendar, which is what \<open>toISOString\<close> and the store's \<open>$dateToString\<close> print. It
  goes from the day to the 400-year era and the day of the era, then to the year of the
  era, then to the day of the year (counted from 1 March) and the month.
\<close>

text \<open>From the day of the era and the year of the era to the date.\<close>

definition civil_of_doy :: "int \<Rightarrow> int \<Rightarrow> int \<Rightarrow> int \<times> int \<times> int" where
  "civil_of_doy y doy mp =
     (if mp < 10 then (y, mp + 3, doy - (153 * mp + 2) div 5 + 1)
      else (y + 1, mp - 9, doy - (153 * mp + 2) div 5 + 1))"

definition civil_of_yoe :: "int \<Rightarrow> int \<Rightarrow> int \<Rightarrow> int \<times> int \<times> int" where
  "civil_of_yoe era doe yoe =
     civil_of_doy (yoe + era * 400) (doe - (365 * yoe + yoe div 4 - yoe div 100))
       ((5 * (doe - (365 * yoe + yoe div 4 - yoe div 100)) + 2) div 153)"

definition civil_of_doe :: "int \<Rightarrow> int \<Rightarrow> int \<times> int \<times> int" where
  "civil_of_doe era doe =
     civil_of_yoe era doe ((doe - doe div 1460 + doe div 36524 - doe div 146096) div 365)"

definition civil_from_days :: "int \<Rightarrow> int \<times> int \<times> int" where
  "civil_from_days days = civil_of_doe ((days + 719468) div 146097) ((days + 719468) mod 146097)"

text \<open>The last two, three, four or six decimal digits of a number, zero-padded.\<close>

definition pad2 :: "nat \<Rightarrow> string" where
  "pad2 n = [digit_char (n div 10), digit_char n]"

definition pad3 :: "nat \<Rightarrow> string" where
  "pad3 n = digit_char (n div 100) # pad2 n"

definition pad4 :: "nat \<Rightarrow> string" where
  "pad4 n = digit_char (n div 1000) # pad3 n"

definition pad6 :: "nat \<Rightarrow> string" where
  "pad6 n = digit_char (n div 100000) # digit_char (n div 10000) # pad4 n"

definition ms_per_day :: int where
  "ms_per_day = 86400000"

text \<open>
  \<open>toISOString\<close> of a valid date: \<open>YYYY-MM-DDTHH:mm:ss.sssZ\<close>, the year with a sign and
  six digits outside 0..9999.
\<close>

definition iso_date :: "int \<times> int \<times> int \<Rightarrow> string" where
  "iso_date ymd =
     (case ymd of (y, m, d) \<Rightarrow>
        (if 0 \<le> y \<and> y \<le> 9999 then pad4 (nat y)
         else (if y < 0 then ''-'' else ''+'') @ pad6 (nat \<bar>y\<bar>))
        @ ''-'' @ pad2 (nat m) @ ''-'' @ pad2 (nat d))"

definition iso_time :: "nat \<Rightarrow> string" where
  "iso_time r = pad2 (r div 3600000) @ '':'' @ pad2 (r div 60000 mod 60) @ '':''
                  @ pad2 (r div 1000 mod 60) @ ''.'' @ pad3 (r mod 1000)"

definition toISOString :: "int \<Rightarrow> string" where
  "toISOString t = iso_date (civil_from_days (t div ms_per_day)) @ ''T''
                     @ iso_time (nat (t mod ms_per_day)) @ ''Z''"

text \<open>
  The clock readings of one request: the first \<open>Date.now()\<close>, the \<open>new Date()\<close> the
  handler takes, and the \<open>Date.now()\<close> of a catch block that follows an earlier reading.
\<close>

record clock =
  dateNow :: int
  newDate :: int
  dateNowCatch :: int

section \<open>Collaborators and responses\<close>

text \<open>
  A read of the live-data store fails with an error or yields \<open>snapshot.val()\<close>:
  \<open>Null\<close> when the path holds nothing.
\<close>

datatype error = Error string

fun message :: "error \<Rightarrow> string" where
  "message (Error m) = m"

type_synonym 'a upstream = "error + 'a"

text \<open>
  What a handler sends: the status code and the value given to \<open>res.json\<close>.
\<close>

record response =
  statusCode :: nat
  body :: jsval

definition json :: "jsval \<Rightarrow> response" where
  "json v = \<lparr>statusCode = 200, body = v\<rparr>"

definition status_json :: "nat \<Rightarrow> jsval \<Rightarrow> response" where
  "status_json c v = \<lparr>statusCode = c, body = v\<rparr>"

section \<open>Latest-position view\<close>

definition defaultData :: "clock \<Rightarrow> jsval" where
  "defaultData clk =
     obj [(''latitude'', num 0), (''longitude'', num 0), (''gps_valid'', Bool False),
          (''timestamp'', Str (toISOString (newDate clk))),
          (''wifi_connected'', Bool False), (''firebase_ready'', Bool False),
          (''last_update'', num (of_int (dateNow clk)))]"

definition getLatestData :: "clock \<Rightarrow> jsval upstream \<Rightarrow> response" where
  "getLatestData clk snapshot =
     (case snapshot of
        Inr val \<Rightarrow>
          let data = js_or val (obj []);
              responseData =
                Obj (fmupd ''last_update''
                       (js_or (js_prop data ''last_update'')
                          (js_prop (defaultData clk) ''last_update''))
                    (fmupd ''timestamp''
                       (js_or (js_prop data ''timestamp'')
                          (js_prop (defaultData clk) ''timestamp''))
                    (own_props (defaultData clk) ++\<^sub>f own_props data)))
          in json (obj [(''data'', responseData)])
      | Inl e \<Rightarrow>
          json (obj [(''data'',
            obj [(''latitude'', num 0), (''longitude'', num 0), (''gps_valid'', Bool False),
                 (''timestamp'', Str (toISOString (newDate clk))),
                 (''last_update'', num (of_int (dateNow clk))),
                 (''wifi_connected'', Bool False), (''firebase_ready'', Bool False)])]))"

section \<open>Status cache\<close>

text \<open>
  The module-level cache: \<open>data\<close> and \<open>timestamp\<close> start as \<open>null\<close>; the handler only
  ever stores a status object and a \<open>Date.now()\<close> reading.
\<close>

record statusCache =
  data :: jsval
  timestamp :: "int option"
  ttl :: int



section \<open>Range classifier\<close>

definition getHeartRateStatus :: "coercion \<Rightarrow> jsval \<Rightarrow> string" where
  "getHeartRateStatus N bpm =
     (if \<not> truthy bpm \<or> bpm = num 0 then ''No Signal''
      else if js_lt (to_number N bpm) (Fin 60) then ''Slow''
      else if js_ge (to_number N bpm) (Fin 60) \<and> js_le (to_number N bpm) (Fin 100) then ''Normal''
      else if js_gt (to_number N bpm) (Fin 100) \<and> js_le (to_number N bpm) (Fin 140)
        then ''Elevated''
      else ''High'')"

definition getHeartRateZone :: "coercion \<Rightarrow> jsval \<Rightarrow> string" where
  "getHeartRateZone N bpm =
     (if \<not> truthy bpm \<or> bpm = num 0 then ''No Signal''
      else if js_lt (to_number N bpm) (Fin 60) then ''Resting''
      else if js_lt (to_number N bpm) (Fin 100) then ''Normal''
      else if js_lt (to_number N bpm) (Fin 140) then ''Light Exercise''
      else if js_lt (to_number N bpm) (Fin 170) then ''Moderate Exercise''
      else ''Intense Exercise'')"

definition getPulseSignalStatus :: "coercion \<Rightarrow> jsval \<Rightarrow> string" where
  "getPulseSignalStatus N pulseValue =
     (if \<not> truthy pulseValue then ''No Signal''
      else if js_lt (to_number N pulseValue) (Fin 1000) then ''Very Weak''
      else if js_lt (to_number N pulseValue) (Fin 2000) then ''Weak''
      else if js_lt (to_number N pulseValue) (Fin 3000) then ''Normal''
      else if js_lt (to_number N pulseValue) (Fin 4000) then ''Strong''
      else ''Very Strong'')"

section \<open>Blood-pressure estimator\<close>

definition predictBloodPressure ::
  "coercion \<Rightarrow> floats \<Rightarrow> jsval \<Rightarrow> jsval \<Rightarrow> jsval \<Rightarrow> jsval \<Rightarrow> jsval \<Rightarrow> jsval" where
  "predictBloodPressure N F heartRate age0 isMale0 weight0 height0 =
     (let age = dflt age0 (num 30);
          isMale = dflt isMale0 (Bool True);
          weight = dflt weight0 (num 70);
          height = dflt height0 (num 170)
      in
      if \<not> truthy heartRate \<or> js_lt (to_number N heartRate) (Fin 30)
           \<or> js_gt (to_number N heartRate) (Fin 220)
      then obj [(''systolic'', num 0), (''diastolic'', num 0), (''valid'', Bool False),
                (''message'', Str ''Invalid heart rate'')]
      else
        let baseSystolic = Fin 120;
            baseDiastolic = Fin 80;
            hrFactor = js_mul F (js_sub F (to_number N heartRate) (Fin 70)) (Fin (1 / 2));
            ageFactor = Math_max (Fin 0)
                          (js_mul F (js_sub F (to_number N age) (Fin 30)) (rnd F (3 / 10)));
            bmi = js_div F (to_number N weight) (pow2 F (js_div F (to_number N height) (Fin 100)));
            bmiFactor = Math_max (Fin 0) (js_mul F (js_sub F bmi (Fin 25)) (Fin (1 / 2)));
            genderFactor = (if truthy isMale then Fin 2 else Fin 0);
            systolic = Math_round (js_add F (js_add F (js_add F (js_add F baseSystolic hrFactor)
                          ageFactor) bmiFactor) genderFactor);
            diastolic = Math_round (js_add F (js_add F (js_add F baseDiastolic
                          (js_mul F hrFactor (Fin (1 / 2)))) (js_mul F ageFactor (Fin (1 / 2))))
                          (js_mul F bmiFactor (Fin (1 / 2))));
            category =
              (if js_lt systolic (Fin 120) \<and> js_lt diastolic (Fin 80) then ''Normal''
               else if js_lt systolic (Fin 130) \<and> js_lt diastolic (Fin 80) then ''Elevated''
               else if js_lt systolic (Fin 140) \<or> js_lt diastolic (Fin 90)
                 then ''Stage 1 Hypertension''
               else ''Stage 2 Hypertension'')
        in obj [(''systolic'', Num systolic), (''diastolic'', Num diastolic),
                (''category'', Str category), (''valid'', Bool True),
                (''confidence'', Str ''Low''),
                (''factors'', obj [(''heartRateFactor'', Num hrFactor),
                                   (''ageFactor'', Num ageFactor),
                                   (''bmiFactor'', Num bmiFactor),
                                   (''genderFactor'', Num genderFactor)])])"

section \<open>Composite health view\<close>

definition getHealthData ::
  "coercion \<Rightarrow> floats \<Rightarrow> clock \<Rightarrow> jsval upstream \<Rightarrow> jsval upstream \<Rightarrow> response" where
  "getHealthData N F clk statusSnapshot healthSnapshot =
     (case (statusSnapshot, healthSnapshot) of
        (Inr statusVal, Inr healthVal) \<Rightarrow>
          let statusData = js_or statusVal (obj []);
              healthData = js_or healthVal (obj []);
              currentTimestamp = toISOString (newDate clk);
              heartRate = js_or (js_or (js_prop healthData ''bpm'') (js_prop statusData ''bpm''))
                            (num 0);
              userProfile = js_or (js_prop healthData ''userProfile'')
                              (obj [(''age'', num 30), (''isMale'', Bool True),
                                    (''weight'', num 70), (''height'', num 170)]);
              bloodPressure = predictBloodPressure N F heartRate
                                (js_prop userProfile ''age'') (js_prop userProfile ''isMale'')
                                (js_prop userProfile ''weight'') (js_prop userProfile ''height'');
              healthResponse = obj [
                (''heartRate'', obj [
                   (''bpm'', heartRate),
                   (''valid'', js_or (js_or (js_prop healthData ''valid_bpm'')
                                  (js_prop statusData ''bpm_valid'')) (Bool False)),
                   (''status'', Str (getHeartRateStatus N heartRate)),
                   (''zone'', Str (getHeartRateZone N heartRate))]),
                (''bloodPressure'',
                   Obj (fmupd ''note'' (Str ''Estimated based on heart rate and user profile'')
                       (fmupd ''lastUpdated'' (Str currentTimestamp) (own_props bloodPressure)))),
                (''pulse'', obj [
                   (''value'', js_or (js_or (js_prop healthData ''pulse_value'')
                                  (js_prop statusData ''pulse_value'')) (num 0)),
                   (''threshold'', num 3300),
                   (''signal'', Str (getPulseSignalStatus N
                       (js_or (js_prop healthData ''pulse_value'')
                          (js_prop statusData ''pulse_value''))))]),
                (''waveform'', js_or (js_prop healthData ''waveform'') (Arr [])),
                (''timestamp'', js_or (js_or (js_prop statusData ''timestamp'')
                                   (js_prop healthData ''timestamp'')) (Str currentTimestamp)),
                (''last_update'', js_or (js_prop statusData ''last_update'')
                                   (num (of_int (dateNow clk)))),
                (''device'', js_or (js_prop statusData ''device'') (Str ''ESP32_Health_Tracker'')),
                (''healthId'', js_or (js_prop healthData ''health_id'') (Str ''current''))]
          in json (obj [(''data'', healthResponse)])
      | _ \<Rightarrow>
          json (obj [(''data'', obj [
            (''heartRate'', obj [(''bpm'', num 0), (''valid'', Bool False),
                                 (''status'', Str ''No Signal''), (''zone'', Str ''No Signal'')]),
            (''bloodPressure'', obj [(''systolic'', num 0), (''diastolic'', num 0),
                                     (''valid'', Bool False),
                                     (''message'', Str ''No data available'')]),
            (''pulse'', obj [(''value'', num 0), (''threshold'', num 3300),
                             (''signal'', Str ''No Signal'')]),
            (''waveform'', Arr []),
            (''timestamp'', Str (toISOString (newDate clk))),
            (''last_update'', num (of_int (dateNow clk))),
            (''device'', Str ''ESP32_Health_Tracker''),
            (''healthId'', Str ''offline'')])]))"

text \<open>\<open>Object.keys(v)\<close>, as a set.\<close>

definition keys :: "jsval \<Rightarrow> string set" where
  "keys v = fmdom' (own_props v)"

section \<open>Reading validator\<close>

definition validateHeartRate :: "coercion \<Rightarrow> jsval upstream \<Rightarrow> response" where
  "validateHeartRate N snapshot =
     (case snapshot of
        Inl e \<Rightarrow>
          status_json 500 (obj [(''valid'', Bool False),
                                (''message'', Str ''Error validating heart rate''),
                                (''error'', Str (message e))])
      | Inr val \<Rightarrow>
          let data = val in
          if \<not> truthy data
          then status_json 404 (obj [(''valid'', Bool False),
                                     (''message'', Str ''No heartbeat data found''),
                                     (''reason'', Str ''No data available'')])
          else
            let pulse_value = js_prop data ''pulse_value'';
                bpm = js_prop data ''bpm'';
                waveform = js_prop data ''waveform'';
                waveformLength = (if truthy waveform then js_prop waveform ''length'' else num 0);
                validation = obj [
                  (''pulseValue'', obj [
                     (''valid'', js_and (Bool (js_ge (to_number N pulse_value) (Fin 500)))
                                   (Bool (js_le (to_number N pulse_value) (Fin 8000)))),
                     (''value'', pulse_value),
                     (''range'', Str ''500-8000'')]),
                  (''heartRate'', obj [
                     (''valid'', js_and (js_and (Bool (js_ge (to_number N bpm) (Fin 30)))
                                           (Bool (js_le (to_number N bpm) (Fin 220))))
                                   (js_prop data ''valid_bpm'')),
                     (''value'', bpm),
                     (''range'', Str ''30-220 BPM'')]),
                  (''waveform'', obj [
                     (''valid'', js_and waveform
                                   (Bool (js_ge (to_number N (js_prop waveform ''length''))
                                      (Fin 10)))),
                     (''length'', waveformLength),
                     (''required'', num 10)]),
                  (''signalQuality'', obj [
                     (''valid'', js_and (Bool (js_ge (to_number N pulse_value) (Fin 500)))
                                   (Bool (js_le (to_number N pulse_value) (Fin 8000)))),
                     (''value'', pulse_value),
                     (''range'', Str ''500-8000'')])];
                isValid = (truthy (js_prop (js_prop validation ''pulseValue'') ''valid'')
                         \<and> truthy (js_prop (js_prop validation ''heartRate'') ''valid'')
                         \<and> truthy (js_prop (js_prop validation ''waveform'') ''valid'')
                         \<and> truthy (js_prop (js_prop validation ''signalQuality'') ''valid''))
            in json (obj [
                 (''valid'', Bool isValid),
                 (''message'', Str (if isValid then ''Heart rate validation passed''
                                    else ''Heart rate validation failed'')),
                 (''validation'', validation),
                 (''data'', obj [(''bpm'', bpm), (''pulseValue'', pulse_value),
                                 (''waveformLength'', waveformLength),
                                 (''timestamp'', js_prop data ''timestamp'')])]))"

section \<open>Stored measurements\<close>

text \<open>
  A document of the \<open>Health\<close> collection, after the schema's casts: the user's ObjectId
  (as its hex string), three numbers and the time value of \<open>timestamp\<close>. The fields the
  store generates on its own (\<open>_id\<close>, \<open>createdAt\<close>, \<open>updatedAt\<close>, \<open>__v\<close>) are
  left out. The collection is the list of its documents in natural order.
\<close>

record StoredMeasurement =
  user :: string
  heartRate :: rat
  systolic :: rat
  diastolic :: rat
  timestamp :: int

text \<open>
  The document library, which is not part of this program: \<open>ObjectId\<close> is
  \<open>new mongoose.Types.ObjectId(v)\<close>, which throws on a value that is no ObjectId;
  \<open>castObjectId\<close> is the cast of the schema type \<open>ObjectId\<close> on a truthy value and
  \<open>castNumber\<close> the cast of the schema type \<open>Number\<close> on a truthy value that is not a
  finite number, \<open>None\<close> being a cast error; \<open>writeError\<close> is the error the database
  answers a write with, if any; \<open>dateError\<close> is the error it answers an aggregation with
  when \<open>$dateToString\<close> cannot print a date.
\<close>

record mongoose =
  ObjectId :: "jsval \<Rightarrow> error + string"
  castObjectId :: "jsval \<Rightarrow> string option"
  castNumber :: "jsval \<Rightarrow> rat option"
  writeError :: "error option"
  dateError :: error

text \<open>The cast of the schema type \<open>Number\<close>: a finite number is kept as it is.\<close>

definition SchemaNumber_cast :: "mongoose \<Rightarrow> jsval \<Rightarrow> rat option" where
  "SchemaNumber_cast M v = (case v of Num (Fin r) \<Rightarrow> Some r | _ \<Rightarrow> castNumber M v)"

definition StoredMeasurement_json :: "StoredMeasurement \<Rightarrow> jsval" where
  "StoredMeasurement_json m =
     obj [(''user'', Str (user m)), (''heartRate'', num (heartRate m)),
          (''systolic'', num (systolic m)), (''diastolic'', num (diastolic m)),
          (''timestamp'', Str (toISOString (StoredMeasurement.timestamp m)))]"

text \<open>
  A read of a property of \<open>req.user\<close> or \<open>req.body\<close> throws a TypeError when that value
  is \<open>undefined\<close> or \<open>null\<close>; its message is worded as Node words it.
\<close>

definition nullish :: "jsval \<Rightarrow> bool" where
  "nullish v = (v = Undefined \<or> v = Null)"


definition saveMeasurement ::
  "mongoose \<Rightarrow> clock \<Rightarrow> jsval \<Rightarrow> jsval \<Rightarrow> StoredMeasurement list
     \<Rightarrow> response \<times> StoredMeasurement list" where
  "saveMeasurement M clk req_user req_body collection =
     (let failed = (status_json 500 (obj [(''message'', Str ''Error saving measurement'')]),
                    collection)
      in
      if nullish req_body \<or> nullish req_user then failed
      else
        let heartRate = js_prop req_body ''heartRate'';
            systolic = js_prop req_body ''systolic'';
            diastolic = js_prop req_body ''diastolic'';
            userId = js_or (js_prop req_user ''_id'') (js_prop req_user ''id'')
        in
        if \<not> truthy heartRate \<or> \<not> truthy systolic \<or> \<not> truthy diastolic
        then (status_json 400 (obj [(''message'', Str ''Missing required fields'')]), collection)
        else
          (case (if truthy userId then castObjectId M userId else None,
                 SchemaNumber_cast M heartRate, SchemaNumber_cast M systolic,
                 SchemaNumber_cast M diastolic, writeError M) of
             (Some u, Some h, Some s, Some d, None) \<Rightarrow>
               let measurement = \<lparr>user = u, heartRate = h, systolic = s, diastolic = d,
                                   timestamp = newDate clk\<rparr>
               in (json (obj [(''success'', Bool True),
                              (''measurement'', StoredMeasurement_json measurement)]),
                   collection @ [measurement])
           | _ \<Rightarrow> failed))"

section \<open>Historical report\<close>

text \<open>
  \<open>$dateToString\<close> with format \<open>%Y-%m-%d\<close> (UTC): an error outside the years 0..9999.
\<close>

definition dateToString :: "int \<Rightarrow> string option" where
  "dateToString t =
     (case civil_from_days (t div ms_per_day) of (y, m, d) \<Rightarrow>
        if 0 \<le> y \<and> y \<le> 9999
        then Some (pad4 (nat y) @ ''-'' @ pad2 (nat m) @ ''-'' @ pad2 (nat d))
        else None)"









text \<open>The value is an object.\<close>

fun is_obj :: "jsval \<Rightarrow> bool" where
  "is_obj (Obj _) = True"
| "is_obj _ = False"

text \<open>The estimator's rejection: \<open>valid: false\<close> with systolic and diastolic 0.\<close>

definition rejected :: "jsval \<Rightarrow> bool" where
  "rejected r = (js_prop r ''valid'' = Bool False \<and> js_prop r ''systolic'' = num 0
                  \<and> js_prop r ''diastolic'' = num 0)"



text \<open>
  The document that \<open>saveMeasurement\<close> builds passes the schema and the database takes
  the write: there is a user id that casts to an ObjectId, the three values cast to
  numbers, and the write answers no error.
\<close>

definition persists :: "mongoose \<Rightarrow> jsval \<Rightarrow> jsval \<Rightarrow> bool" where
  "persists M req_user req_body =
     (let userId = js_or (js_prop req_user ''_id'') (js_prop req_user ''id'')
      in truthy userId \<and> castObjectId M userId \<noteq> None
         \<and> SchemaNumber_cast M (js_prop req_body ''heartRate'') \<noteq> None
         \<and> SchemaNumber_cast M (js_prop req_body ''systolic'') \<noteq> None
         \<and> SchemaNumber_cast M (js_prop req_body ''diastolic'') \<noteq> None
         \<and> writeError M = None)"


section \<open>Properties\<close>

lemma own_props_obj [simp]: "own_props (obj kvs) = fmap_of_list kvs"
  by (simp add: obj_def)

lemma truthy_obj [simp]: "truthy (obj kvs)"
  by (simp add: obj_def)

lemma js_prop_obj: "js_prop (obj kvs) k = (case map_of kvs k of Some v \<Rightarrow> v | None \<Rightarrow> Undefined)"
  by (simp add: js_prop_def obj_def fmlookup_of_list split: option.splits)

lemma js_prop_Obj: "js_prop (Obj m) k = (case fmlookup m k of Some v \<Rightarrow> v | None \<Rightarrow> Undefined)"
  by (simp add: js_prop_def split: option.splits)

lemma js_prop_nullish [simp]: "js_prop Undefined k = Undefined" "js_prop Null k = Undefined"
  by (simp_all add: js_prop_def)

lemma keys_obj: "keys (obj kvs) = fst ` set kvs"
  by (simp add: keys_def fmdom'_alt_def fmdom_of_list fset_of_list.rep_eq)

declare show_nat.simps [simp del]

lemmas date_eval = toISOString_def dateToString_def iso_date_def iso_time_def ms_per_day_def
  civil_from_days_def civil_of_doe_def civil_of_yoe_def civil_of_doy_def
  pad2_def pad3_def pad4_def pad6_def digit_char_def

lemma toISOString_nonempty: "toISOString t \<noteq> []"
  by (simp add: toISOString_def)

lemma digit_char_digit: "digit_char d \<in> set ''0123456789''"
  unfolding digit_char_def by (rule nth_mem) simp

lemma show_nat_digits: "set (show_nat n) \<subseteq> set ''0123456789''"
proof (induction n rule: show_nat.induct)
  case (1 n)
  show ?case
  proof (cases "n < 10")
    case True
    then show ?thesis using digit_char_digit [of n] by (subst show_nat.simps) simp
  next
    case False
    then show ?thesis using 1 digit_char_digit [of n] by (subst show_nat.simps) simp
  qed
qed

text \<open>No array index is spelled \<open>length\<close>.\<close>

lemma length_not_index: "''length'' \<notin> set (map show_nat ns)"
proof
  assume "''length'' \<in> set (map show_nat ns)"
  then obtain n where "show_nat n = ''length''" by auto
  then have "CHR ''l'' \<in> set (show_nat n)" by simp
  then show False using show_nat_digits [of n] by auto
qed

lemma js_prop_Arr_length: "js_prop (Arr xs) ''length'' = num (of_nat (length xs))"
proof -
  have none: "map_of (zip (map show_nat [0..<length xs]) xs) ''length'' = None"
    using length_not_index [of "[0..<length xs]"]
    by (subst map_of_zip_is_None) simp_all
  show ?thesis by (simp add: js_prop_def fmlookup_of_list none)
qed

lemma floor_rat_numeral_div [simp]:
  "\<lfloor>(numeral a / numeral b :: rat)\<rfloor> = numeral a div numeral b"
  by (metis floor_divide_of_int_eq of_int_numeral)


lemma js_lt_NInf [simp]: "js_lt a NInf = False"
  by (cases a) simp_all

lemma js_lt_NaN [simp]: "js_lt a NaN = False"
  by (cases a) simp_all

lemma js_lt_PInf [simp]: "js_lt PInf a = False"
  by (cases a) simp_all



















lemma is_obj_predictBloodPressure: "is_obj (predictBloodPressure N F hr a g w h)"
  by (simp add: predictBloodPressure_def obj_def Let_def)

text \<open>A spread \<open>{...v, k1: v1, k2: v2}\<close> of an object keeps the other properties.\<close>

lemma js_prop_spread_other:
  "is_obj v \<Longrightarrow> k \<noteq> k1 \<Longrightarrow> k \<noteq> k2
     \<Longrightarrow> js_prop (Obj (fmupd k1 v1 (fmupd k2 v2 (own_props v)))) k = js_prop v k"
  by (cases v) (simp_all add: js_prop_Obj)

lemma keys_Obj: "keys (Obj m) = fmdom' m"
  by (simp add: keys_def)

lemma fmdom'_of_list: "fmdom' (fmap_of_list kvs) = fst ` set kvs"
  by (simp add: fmdom'_alt_def fmdom_of_list fset_of_list.rep_eq)










subsection \<open>Blood-pressure estimator\<close>

text \<open>
  Claim C6. The estimator answers \<open>valid: false\<close> with systolic and diastolic 0 exactly
  when the heart rate is falsy, below 30 or above 220. For a finite number that is: zero or
  not between 30 and 220. Heart rate 0 is rejected.
\<close>

theorem predictBloodPressure_rejects_iff:
  "(rejected (predictBloodPressure N F hr a g w h)
      \<longleftrightarrow> (\<not> truthy hr \<or> js_lt (to_number N hr) (Fin 30) \<or> js_gt (to_number N hr) (Fin 220)))
   \<and> (rejected (predictBloodPressure N F (num x) a g w h) \<longleftrightarrow> (x = 0 \<or> x < 30 \<or> 220 < x))
   \<and> rejected (predictBloodPressure N F (num 0) a g w h)"
  unfolding predictBloodPressure_def rejected_def Let_def
  by (simp add: js_prop_obj js_gt_def)

theorem predictBloodPressure_rejects_iff_witness:
  "rejected (predictBloodPressure (\<lambda>v. NaN) exact_arithmetic (num 0) Undefined Undefined
      Undefined Undefined)
   \<and> rejected (predictBloodPressure (\<lambda>v. NaN) exact_arithmetic (num 221) (num 40) (Bool False)
        (num 80) (num 180))
   \<and> \<not> rejected (predictBloodPressure (\<lambda>v. NaN) exact_arithmetic (num 30) (num 40) (Bool False)
        (num 80) (num 180))"
  using predictBloodPressure_rejects_iff [of "\<lambda>v. NaN" exact_arithmetic "num 0" Undefined
      Undefined Undefined Undefined 0]
    predictBloodPressure_rejects_iff [of "\<lambda>v. NaN" exact_arithmetic "num 221" "num 40"
      "Bool False" "num 80" "num 180" 221]
    predictBloodPressure_rejects_iff [of "\<lambda>v. NaN" exact_arithmetic "num 30" "num 40"
      "Bool False" "num 80" "num 180" 30]
  by (simp add: js_gt_def)




subsection \<open>Composite health view\<close>

text \<open>
  Claim C1, as the code has it. The heart rate of the composite view is \<open>health.bpm\<close> if
  that is truthy, otherwise \<open>status.bpm\<close> if that is truthy, otherwise 0; status and zone
  are classified from that same value, and the blood pressure is estimated from it and the
  user profile. A missing record counts as the empty object.
\<close>

theorem getHealthData_heartRate_resolution:
  "(let healthData = js_or healthVal (obj []);
        statusData = js_or statusVal (obj []);
        hb = js_prop healthData ''bpm'';
        sb = js_prop statusData ''bpm'';
        hr = (if truthy hb then hb else if truthy sb then sb else num 0);
        profile = js_or (js_prop healthData ''userProfile'')
                    (obj [(''age'', num 30), (''isMale'', Bool True), (''weight'', num 70),
                          (''height'', num 170)]);
        bp = predictBloodPressure N F hr (js_prop profile ''age'') (js_prop profile ''isMale'')
               (js_prop profile ''weight'') (js_prop profile ''height'');
        d = js_prop (body (getHealthData N F clk (Inr statusVal) (Inr healthVal))) ''data''
    in js_path d [''heartRate'', ''bpm''] = hr
       \<and> js_path d [''heartRate'', ''status''] = Str (getHeartRateStatus N hr)
       \<and> js_path d [''heartRate'', ''zone''] = Str (getHeartRateZone N hr)
       \<and> js_path d [''bloodPressure'', ''valid''] = js_prop bp ''valid''
       \<and> js_path d [''bloodPressure'', ''systolic''] = js_prop bp ''systolic''
       \<and> js_path d [''bloodPressure'', ''diastolic''] = js_prop bp ''diastolic'')"
  by (simp add: getHealthData_def json_def js_path_def js_prop_obj js_or_def Let_def
        js_prop_spread_other is_obj_predictBloodPressure)

theorem getHealthData_heartRate_resolution_witness:
  "js_path (body (getHealthData (\<lambda>v. NaN) exact_arithmetic \<lparr>dateNow = 0, newDate = 0, dateNowCatch = 0\<rparr>
       (Inr Null) (Inr (obj [(''bpm'', num 72)]))))
     [''data'', ''heartRate'', ''bpm''] = num 72"
  using getHealthData_heartRate_resolution [of "obj [(''bpm'', num 72)]" Null "\<lambda>v. NaN"
    exact_arithmetic "\<lparr>dateNow = 0, newDate = 0, dateNowCatch = 0\<rparr>", unfolded Let_def,
    THEN conjunct1]
  by (simp add: js_path_def js_prop_obj js_or_def)

text \<open>
  Claim C1 as stated fails: with \<open>health.bpm = 0\<close> and \<open>status.bpm = 75\<close> the resolved
  heart rate is 75, not 0, because \<open>||\<close> skips a present but falsy value.
\<close>

theorem getHealthData_heartRate_zero_counterexample:
  "js_path (body (getHealthData (\<lambda>v. NaN) exact_arithmetic \<lparr>dateNow = 0, newDate = 0, dateNowCatch = 0\<rparr>
       (Inr (obj [(''bpm'', num 75)])) (Inr (obj [(''bpm'', num 0)]))))
     [''data'', ''heartRate'', ''bpm''] = num 75
   \<and> num 75 \<noteq> num 0"
  by (simp add: getHealthData_def json_def js_path_def js_prop_obj js_or_def Let_def)

subsection \<open>Reading validator\<close>

text \<open>
  Claim C10. When the latest-health record is absent as a whole (the read yields
  \<open>null\<close>), the validator answers 404 with \<open>valid: false\<close> and a no-data message; a
  record that is there but has none of the fields gets a normal verdict (200) that fails.
\<close>

theorem validateHeartRate_no_record:
  "validateHeartRate N (Inr Null)
     = \<lparr>statusCode = 404,
        body = obj [(''valid'', Bool False), (''message'', Str ''No heartbeat data found''),
                    (''reason'', Str ''No data available'')]\<rparr>
   \<and> statusCode (validateHeartRate N (Inr (obj []))) = 200
   \<and> js_prop (body (validateHeartRate N (Inr (obj [])))) ''valid'' = Bool False"
  by (simp add: validateHeartRate_def status_json_def json_def js_prop_obj js_and_def Let_def)

theorem validateHeartRate_no_record_witness:
  "statusCode (validateHeartRate (\<lambda>v. NaN) (Inr Null)) = 404
   \<and> statusCode (validateHeartRate (\<lambda>v. NaN) (Inr (obj []))) = 200"
  using validateHeartRate_no_record [of "\<lambda>v. NaN"]
  by simp

text \<open>
  Claim C7. For a reading that is there, the verdict is a normal response whose \<open>valid\<close>
  is true exactly when the \<open>valid\<close> of all four sub-checks is truthy. Without a waveform,
  or with an empty one, the verdict is false. A missing field makes its sub-check falsy;
  nothing is raised.
\<close>

theorem validateHeartRate_verdict:
  "truthy reading \<Longrightarrow>
   (let r = body (validateHeartRate N (Inr reading));
        v = js_prop r ''validation'';
        pv = js_path v [''pulseValue'', ''valid''];
        hv = js_path v [''heartRate'', ''valid''];
        wv = js_path v [''waveform'', ''valid''];
        sv = js_path v [''signalQuality'', ''valid'']
    in statusCode (validateHeartRate N (Inr reading)) = 200
       \<and> js_prop r ''valid'' = Bool (truthy pv \<and> truthy hv \<and> truthy wv \<and> truthy sv)
       \<and> (js_prop reading ''waveform'' = Undefined \<or> js_prop reading ''waveform'' = Arr []
            \<longrightarrow> js_prop r ''valid'' = Bool False)
       \<and> (js_prop reading ''pulse_value'' = Undefined \<longrightarrow> \<not> truthy pv \<and> \<not> truthy sv)
       \<and> (js_prop reading ''bpm'' = Undefined \<longrightarrow> \<not> truthy hv)
       \<and> (js_prop reading ''valid_bpm'' = Undefined \<longrightarrow> \<not> truthy hv)
       \<and> (js_prop reading ''waveform'' = Undefined \<longrightarrow> \<not> truthy wv))"
  by (simp add: validateHeartRate_def json_def js_path_def js_prop_obj js_and_def Let_def
       js_ge_def js_prop_Arr_length)

theorem validateHeartRate_verdict_witness:
  "truthy (obj [(''pulse_value'', num 3000), (''bpm'', num 72), (''valid_bpm'', Bool True),
                (''waveform'', Arr (replicate 10 (num 1)))])
   \<and> js_prop (body (validateHeartRate (\<lambda>v. NaN)
         (Inr (obj [(''pulse_value'', num 3000), (''bpm'', num 72), (''valid_bpm'', Bool True),
                    (''waveform'', Arr (replicate 10 (num 1)))])))) ''valid'' = Bool True
   \<and> js_prop (body (validateHeartRate (\<lambda>v. NaN)
         (Inr (obj [(''pulse_value'', num 3000), (''bpm'', num 72), (''valid_bpm'', Bool True)]))))
       ''valid'' = Bool False"
  using validateHeartRate_verdict [of "obj [(''pulse_value'', num 3000), (''bpm'', num 72),
      (''valid_bpm'', Bool True), (''waveform'', Arr (replicate 10 (num 1)))]" "\<lambda>v. NaN"]
    validateHeartRate_verdict [of "obj [(''pulse_value'', num 3000), (''bpm'', num 72),
      (''valid_bpm'', Bool True)]" "\<lambda>v. NaN"]
  by (simp add: validateHeartRate_def json_def js_path_def js_prop_obj js_and_def Let_def
       js_ge_def js_prop_Arr_length)

subsection \<open>Latest-position view\<close>

text \<open>
  Claim C9, as the code has it. In the merged record every field of the source other than
  \<open>timestamp\<close> and \<open>last_update\<close> has the source's value, every other field that the
  source lacks has the default, and \<open>timestamp\<close> and \<open>last_update\<close> have the source's
  value when that is truthy and the default otherwise (so also when the source omits them).
  For the source \<open>{gps_valid: true, latitude: 12.3}\<close> the result carries the default
  timestamp, which is not empty.
\<close>

theorem getLatestData_merge:
  "(let data = js_or val (obj []);
        r = js_prop (body (getLatestData clk (Inr val))) ''data''
    in (\<forall>k v. fmlookup (own_props data) k = Some v \<and> k \<noteq> ''timestamp'' \<and> k \<noteq> ''last_update''
           \<longrightarrow> js_prop r k = v)
       \<and> (\<forall>k. fmlookup (own_props data) k = None \<and> k \<noteq> ''timestamp'' \<and> k \<noteq> ''last_update''
           \<longrightarrow> js_prop r k = js_prop (defaultData clk) k)
       \<and> js_prop r ''timestamp''
           = (if truthy (js_prop data ''timestamp'') then js_prop data ''timestamp''
              else Str (toISOString (newDate clk)))
       \<and> js_prop r ''last_update''
           = (if truthy (js_prop data ''last_update'') then js_prop data ''last_update''
              else num (of_int (dateNow clk))))
   \<and> (let r = js_prop (body (getLatestData clk
                 (Inr (obj [(''gps_valid'', Bool True), (''latitude'', num (123 / 10))])))) ''data''
      in js_prop r ''timestamp'' = Str (toISOString (newDate clk))
         \<and> toISOString (newDate clk) \<noteq> []
         \<and> js_prop r ''latitude'' = num (123 / 10)
         \<and> js_prop r ''gps_valid'' = Bool True)"
  by (simp add: getLatestData_def defaultData_def json_def js_prop_obj js_prop_Obj js_or_def Let_def
       fmlookup_dom_iff toISOString_nonempty)

theorem getLatestData_merge_witness:
  "js_path (body (getLatestData \<lparr>dateNow = 1700000000000, newDate = 1700000000000,
                                  dateNowCatch = 1700000000000\<rparr>
       (Inr (obj [(''gps_valid'', Bool True), (''latitude'', num (123 / 10))]))))
     [''data'', ''timestamp''] = Str ''2023-11-14T22:13:20.000Z''"
proof -
  have iso: "toISOString 1700000000000 = ''2023-11-14T22:13:20.000Z''"
    by (simp add: date_eval)
  have "js_prop (js_prop (body (getLatestData \<lparr>dateNow = 1700000000000,
                  newDate = 1700000000000, dateNowCatch = 1700000000000\<rparr>
          (Inr (obj [(''gps_valid'', Bool True), (''latitude'', num (123 / 10))])))) ''data'')
          ''timestamp''
        = Str (toISOString 1700000000000)"
    using getLatestData_merge [of Null "\<lparr>dateNow = 1700000000000, newDate = 1700000000000,
      dateNowCatch = 1700000000000\<rparr>", THEN conjunct2, unfolded Let_def, THEN conjunct1]
    by simp
  then show ?thesis
    unfolding iso by (simp add: js_path_def)
qed

text \<open>
  Claim C9 as stated fails: a \<open>last_update\<close> that is present in the source with the
  value 0 does not override the default; the result carries the clock reading.
\<close>

theorem getLatestData_merge_counterexample:
  "js_path (body (getLatestData \<lparr>dateNow = 1700000000000, newDate = 1700000000000,
                                  dateNowCatch = 1700000000000\<rparr>
       (Inr (obj [(''last_update'', num 0)])))) [''data'', ''last_update''] = num 1700000000000
   \<and> js_prop (obj [(''last_update'', num 0)]) ''last_update'' = num 0
   \<and> num 1700000000000 \<noteq> num 0"
  by (simp add: getLatestData_def defaultData_def json_def js_path_def js_prop_obj js_prop_Obj
       js_or_def Let_def)

subsection \<open>Shape of the composite health view\<close>

text \<open>
  Claim C2, as the code has it. The composite health view always answers 200. When a read
  fails it sends the offline payload: bpm 0, status and zone \<open>No Signal\<close>, systolic and
  diastolic 0, pulse value 0. The keys of that payload, of its \<open>heartRate\<close> and of its
  \<open>pulse\<close> are those of the success path. Its \<open>bloodPressure\<close> has the keys systolic,
  diastolic, valid, message; on the success path \<open>bloodPressure\<close> has \<open>lastUpdated\<close> and
  \<open>note\<close> as well, and for an accepted heart rate category, confidence and factors in
  place of message.
\<close>

theorem getHealthData_shape:
  "statusCode (getHealthData N F clk s h) = 200
   \<and> (isl s \<or> isl h \<longrightarrow>
        (let d = js_prop (body (getHealthData N F clk s h)) ''data'' in
           js_path d [''heartRate'', ''bpm''] = num 0
           \<and> js_path d [''heartRate'', ''status''] = Str ''No Signal''
           \<and> js_path d [''heartRate'', ''zone''] = Str ''No Signal''
           \<and> js_path d [''bloodPressure'', ''systolic''] = num 0
           \<and> js_path d [''bloodPressure'', ''diastolic''] = num 0
           \<and> js_path d [''pulse'', ''value''] = num 0
           \<and> keys d = {''heartRate'', ''bloodPressure'', ''pulse'', ''waveform'', ''timestamp'',
                         ''last_update'', ''device'', ''healthId''}
           \<and> keys (js_prop d ''heartRate'') = {''bpm'', ''valid'', ''status'', ''zone''}
           \<and> keys (js_prop d ''pulse'') = {''value'', ''threshold'', ''signal''}
           \<and> keys (js_prop d ''bloodPressure'') = {''systolic'', ''diastolic'', ''valid'', ''message''}))
   \<and> (let d = js_prop (body (getHealthData N F clk (Inr sv) (Inr hv))) ''data'';
           bp = js_prop d ''bloodPressure''
       in keys d = {''heartRate'', ''bloodPressure'', ''pulse'', ''waveform'', ''timestamp'',
                    ''last_update'', ''device'', ''healthId''}
          \<and> keys (js_prop d ''heartRate'') = {''bpm'', ''valid'', ''status'', ''zone''}
          \<and> keys (js_prop d ''pulse'') = {''value'', ''threshold'', ''signal''}
          \<and> keys bp = (if js_prop bp ''valid'' = Bool False
                        then {''systolic'', ''diastolic'', ''valid'', ''message'', ''lastUpdated'', ''note''}
                        else {''systolic'', ''diastolic'', ''category'', ''valid'', ''confidence'',
                              ''factors'', ''lastUpdated'', ''note''}))"
proof (intro conjI)
  show "statusCode (getHealthData N F clk s h) = 200"
    by (cases s; cases h) (simp_all add: getHealthData_def json_def Let_def)
  show "isl s \<or> isl h \<longrightarrow>
        (let d = js_prop (body (getHealthData N F clk s h)) ''data'' in
           js_path d [''heartRate'', ''bpm''] = num 0
           \<and> js_path d [''heartRate'', ''status''] = Str ''No Signal''
           \<and> js_path d [''heartRate'', ''zone''] = Str ''No Signal''
           \<and> js_path d [''bloodPressure'', ''systolic''] = num 0
           \<and> js_path d [''bloodPressure'', ''diastolic''] = num 0
           \<and> js_path d [''pulse'', ''value''] = num 0
           \<and> keys d = {''heartRate'', ''bloodPressure'', ''pulse'', ''waveform'', ''timestamp'',
                         ''last_update'', ''device'', ''healthId''}
           \<and> keys (js_prop d ''heartRate'') = {''bpm'', ''valid'', ''status'', ''zone''}
           \<and> keys (js_prop d ''pulse'') = {''value'', ''threshold'', ''signal''}
           \<and> keys (js_prop d ''bloodPressure'') = {''systolic'', ''diastolic'', ''valid'', ''message''})"
    by (cases s; cases h)
      (simp_all add: getHealthData_def json_def js_path_def js_prop_obj keys_obj Let_def)
  show "(let d = js_prop (body (getHealthData N F clk (Inr sv) (Inr hv))) ''data'';
           bp = js_prop d ''bloodPressure''
       in keys d = {''heartRate'', ''bloodPressure'', ''pulse'', ''waveform'', ''timestamp'',
                    ''last_update'', ''device'', ''healthId''}
          \<and> keys (js_prop d ''heartRate'') = {''bpm'', ''valid'', ''status'', ''zone''}
          \<and> keys (js_prop d ''pulse'') = {''value'', ''threshold'', ''signal''}
          \<and> keys bp = (if js_prop bp ''valid'' = Bool False
                        then {''systolic'', ''diastolic'', ''valid'', ''message'', ''lastUpdated'', ''note''}
                        else {''systolic'', ''diastolic'', ''category'', ''valid'', ''confidence'',
                              ''factors'', ''lastUpdated'', ''note''}))"
    by (simp add: getHealthData_def json_def js_prop_obj js_prop_Obj keys_obj keys_Obj Let_def
          predictBloodPressure_def fmdom'_of_list insert_commute)
qed

theorem getHealthData_shape_witness:
  "statusCode (getHealthData (\<lambda>v. NaN) exact_arithmetic \<lparr>dateNow = 0, newDate = 0, dateNowCatch = 0\<rparr>
      (Inl (Error ''unavailable'')) (Inr Null)) = 200
   \<and> js_path (body (getHealthData (\<lambda>v. NaN) exact_arithmetic \<lparr>dateNow = 0, newDate = 0, dateNowCatch = 0\<rparr>
        (Inl (Error ''unavailable'')) (Inr Null))) [''data'', ''heartRate'', ''bpm''] = num 0"
  using getHealthData_shape [of "\<lambda>v. NaN" exact_arithmetic
      "\<lparr>dateNow = 0, newDate = 0, dateNowCatch = 0\<rparr>" "Inl (Error ''unavailable'')" "Inr Null",
      THEN conjunct1]
    getHealthData_shape [of "\<lambda>v. NaN" exact_arithmetic
      "\<lparr>dateNow = 0, newDate = 0, dateNowCatch = 0\<rparr>" "Inl (Error ''unavailable'')" "Inr Null",
      THEN conjunct2, THEN conjunct1]
  by (simp add: js_path_def Let_def)

text \<open>
  Claim C2 as stated fails on the nested object: the success path's \<open>bloodPressure\<close> has
  the key \<open>note\<close>, the failure payload's has not.
\<close>

theorem getHealthData_shape_counterexample:
  "''note'' \<in> keys (js_path (body (getHealthData (\<lambda>v. NaN) exact_arithmetic \<lparr>dateNow = 0, newDate = 0, dateNowCatch = 0\<rparr>
        (Inr Null) (Inr Null))) [''data'', ''bloodPressure''])
   \<and> ''note'' \<notin> keys (js_path (body (getHealthData (\<lambda>v. NaN) exact_arithmetic \<lparr>dateNow = 0, newDate = 0, dateNowCatch = 0\<rparr>
        (Inl (Error ''unavailable'')) (Inr Null))) [''data'', ''bloodPressure''])"
  by (simp add: getHealthData_def json_def js_path_def js_prop_obj js_or_def Let_def keys_Obj keys_obj)


subsection \<open>Status cache\<close>



subsection \<open>Stored measurements\<close>

text \<open>
  Claim C5, as the code has it. With a request body and an authenticated user, the save
  answers 400 exactly when one of \<open>heartRate\<close>, \<open>systolic\<close>, \<open>diastolic\<close> is missing or
  falsy (so for \<open>heartRate = 0\<close>), and then the collection is unchanged. When all three
  are truthy and the store takes the document, exactly one document is appended: the user
  and the three values as the schema casts them, with \<open>timestamp\<close> the clock reading.
  When the store does not take it, the answer is 500 and nothing is stored. For three
  finite numbers other than 0, a user id that casts and a write that succeeds, the
  document is appended with those very numbers.
\<close>

theorem saveMeasurement_gate:
  assumes "\<not> nullish req_body" "\<not> nullish req_user"
  shows "(let hr = js_prop req_body ''heartRate'';
              sy = js_prop req_body ''systolic'';
              di = js_prop req_body ''diastolic'';
              userId = js_or (js_prop req_user ''_id'') (js_prop req_user ''id'');
              missing = (\<not> truthy hr \<or> \<not> truthy sy \<or> \<not> truthy di);
              resp = fst (saveMeasurement M clk req_user req_body collection);
              collection' = snd (saveMeasurement M clk req_user req_body collection)
          in (statusCode resp = 400 \<longleftrightarrow> missing)
             \<and> (hr = num 0 \<longrightarrow> statusCode resp = 400)
             \<and> (missing \<longrightarrow> collection' = collection)
             \<and> (\<not> missing \<and> persists M req_user req_body \<longrightarrow>
                  statusCode resp = 200
                  \<and> collection' = collection @
                       [\<lparr>user = the (castObjectId M userId),
                         heartRate = the (SchemaNumber_cast M hr),
                         systolic = the (SchemaNumber_cast M sy),
                         diastolic = the (SchemaNumber_cast M di),
                         timestamp = newDate clk\<rparr>])
             \<and> (\<not> missing \<and> \<not> persists M req_user req_body \<longrightarrow>
                  statusCode resp = 500 \<and> collection' = collection)
             \<and> (hr = num h \<and> sy = num s \<and> di = num d \<and> h \<noteq> 0 \<and> s \<noteq> 0 \<and> d \<noteq> 0
                  \<and> truthy userId \<and> castObjectId M userId = Some u \<and> writeError M = None
                 \<longrightarrow> statusCode resp = 200
                     \<and> collection' = collection @
                          [\<lparr>user = u, heartRate = h, systolic = s, diastolic = d,
                            timestamp = newDate clk\<rparr>]))"
  using assms
  by (auto simp add: saveMeasurement_def persists_def SchemaNumber_cast_def status_json_def
        json_def Let_def split: option.splits)

theorem saveMeasurement_gate_witness:
  "\<not> nullish (obj [(''heartRate'', num 72), (''systolic'', num 120), (''diastolic'', num 80)])
   \<and> \<not> nullish (obj [(''id'', Str ''507f1f77bcf86cd799439011'')])
   \<and> saveMeasurement
         \<lparr>ObjectId = (\<lambda>v. Inr ''507f1f77bcf86cd799439011''),
           castObjectId = (\<lambda>v. Some ''507f1f77bcf86cd799439011''),
           castNumber = (\<lambda>v. None), writeError = None, dateError = Error ''date''\<rparr>
         \<lparr>dateNow = 5, newDate = 5, dateNowCatch = 5\<rparr> (obj [(''id'', Str ''507f1f77bcf86cd799439011'')])
         (obj [(''heartRate'', num 72), (''systolic'', num 120), (''diastolic'', num 80)]) []
       = (fst (saveMeasurement
         \<lparr>ObjectId = (\<lambda>v. Inr ''507f1f77bcf86cd799439011''),
           castObjectId = (\<lambda>v. Some ''507f1f77bcf86cd799439011''),
           castNumber = (\<lambda>v. None), writeError = None, dateError = Error ''date''\<rparr>
         \<lparr>dateNow = 5, newDate = 5, dateNowCatch = 5\<rparr> (obj [(''id'', Str ''507f1f77bcf86cd799439011'')])
         (obj [(''heartRate'', num 72), (''systolic'', num 120), (''diastolic'', num 80)]) []),
          [\<lparr>user = ''507f1f77bcf86cd799439011'', heartRate = 72, systolic = 120, diastolic = 80,
            timestamp = 5\<rparr>])
   \<and> statusCode (fst (saveMeasurement
         \<lparr>ObjectId = (\<lambda>v. Inr ''507f1f77bcf86cd799439011''),
           castObjectId = (\<lambda>v. Some ''507f1f77bcf86cd799439011''),
           castNumber = (\<lambda>v. None), writeError = None, dateError = Error ''date''\<rparr>
         \<lparr>dateNow = 5, newDate = 5, dateNowCatch = 5\<rparr> (obj [(''id'', Str ''507f1f77bcf86cd799439011'')])
         (obj [(''heartRate'', num 72), (''systolic'', num 120), (''diastolic'', num 80)]) [])) = 200
   \<and> statusCode (fst (saveMeasurement
         \<lparr>ObjectId = (\<lambda>v. Inr ''507f1f77bcf86cd799439011''),
           castObjectId = (\<lambda>v. Some ''507f1f77bcf86cd799439011''),
           castNumber = (\<lambda>v. None), writeError = None, dateError = Error ''date''\<rparr>
         \<lparr>dateNow = 5, newDate = 5, dateNowCatch = 5\<rparr> (obj [(''id'', Str ''507f1f77bcf86cd799439011'')])
         (obj [(''heartRate'', num 0), (''systolic'', num 120), (''diastolic'', num 80)]) [])) = 400"
proof -
  have b: "\<not> nullish (obj [(''heartRate'', num 72), (''systolic'', num 120), (''diastolic'', num 80)])"
    and b0: "\<not> nullish (obj [(''heartRate'', num 0), (''systolic'', num 120), (''diastolic'', num 80)])"
    and u: "\<not> nullish (obj [(''id'', Str ''507f1f77bcf86cd799439011'')])"
    by (simp_all add: nullish_def obj_def)
  show ?thesis
    using b u
      saveMeasurement_gate [OF b u, of
        "\<lparr>ObjectId = (\<lambda>v. Inr ''507f1f77bcf86cd799439011''),
           castObjectId = (\<lambda>v. Some ''507f1f77bcf86cd799439011''),
           castNumber = (\<lambda>v. None), writeError = None, dateError = Error ''date''\<rparr>"
        "\<lparr>dateNow = 5, newDate = 5, dateNowCatch = 5\<rparr>" "[]" 72 120 80
        "''507f1f77bcf86cd799439011''"]
      saveMeasurement_gate [OF b0 u, of
        "\<lparr>ObjectId = (\<lambda>v. Inr ''507f1f77bcf86cd799439011''),
           castObjectId = (\<lambda>v. Some ''507f1f77bcf86cd799439011''),
           castNumber = (\<lambda>v. None), writeError = None, dateError = Error ''date''\<rparr>"
        "\<lparr>dateNow = 5, newDate = 5, dateNowCatch = 5\<rparr>" "[]" 0 120 80
        "''507f1f77bcf86cd799439011''"]
    by (simp add: js_prop_obj js_or_def Let_def prod_eq_iff)
qed

text \<open>
  Claim C5 as stated fails: \<open>heartRate = 'abc'\<close> is truthy, as are systolic 120 and
  diastolic 80, so the request passes the test for missing fields; the schema's
  \<open>Number\<close> cast refuses \<open>'abc'\<close>, the save is rejected, and the answer is 500 with
  nothing stored.
\<close>

theorem saveMeasurement_gate_counterexample:
  "truthy (Str ''abc'') \<and> truthy (num 120) \<and> truthy (num 80)
   \<and> saveMeasurement
         \<lparr>ObjectId = (\<lambda>v. Inr ''507f1f77bcf86cd799439011''),
           castObjectId = (\<lambda>v. Some ''507f1f77bcf86cd799439011''),
           castNumber = (\<lambda>v. None), writeError = None, dateError = Error ''date''\<rparr>
         \<lparr>dateNow = 5, newDate = 5, dateNowCatch = 5\<rparr> (obj [(''id'', Str ''507f1f77bcf86cd799439011'')])
         (obj [(''heartRate'', Str ''abc''), (''systolic'', num 120), (''diastolic'', num 80)]) []
       = (\<lparr>statusCode = 500, body = obj [(''message'', Str ''Error saving measurement'')]\<rparr>, [])"
  by (simp add: saveMeasurement_def SchemaNumber_cast_def status_json_def nullish_def
        js_prop_obj js_or_def Let_def obj_def [symmetric])

subsection \<open>Historical report\<close>



end
